theory Spec2Isabelle
  imports Main
begin

section \<open>pyley: the quad model and the fluent Gremlin query builder\<close>

text \<open>
  A shallow embedding of \<^verbatim>\<open>src/pyley.py\<close>. The source is Python 3: text is \<open>str\<close>,
  modelled as \<open>string\<close> restricted to ASCII; Python's unbounded integers are \<open>int\<close>.
  A method that mutates \<open>self\<close> is a function from the object's state to a pair of the
  outcome (an exception or the returned value) and the state afterwards, so that what a
  raising call leaves behind can be stated. A function without side effects returns
  \<open>exn + 'a\<close>, with \<open>Inl\<close> for the exception raised.
\<close>

subsection \<open>Exceptions\<close>

text \<open>
  \<open>NotAValidQuadError\<close> is the source's own exception class (line 19). The other
  constructors are the built-in exceptions that the modelled code raises or catches;
  \<open>Exception msg\<close> is \<^verbatim>\<open>raise Exception(msg)\<close>.
\<close>

datatype exn =
    TypeError
  | ValueError
  | AttributeError
  | NotAValidQuadError
  | Exception string

subsection \<open>Text primitives\<close>

text \<open>
  \<open>str.isspace\<close> on ASCII: tab, line feed, vertical tab, form feed, carriage return,
  the four separators 28..31 and the space.
\<close>

definition is_space :: "char \<Rightarrow> bool" where
  "is_space c = ((of_char c :: nat) \<in> {9, 10, 11, 12, 13, 28, 29, 30, 31, 32})"

text \<open>\<^verbatim>\<open>s.strip()\<close>: drop the leading and the trailing whitespace.\<close>

definition py_strip :: "string \<Rightarrow> string" where
  "py_strip s = rev (dropWhile is_space (rev (dropWhile is_space s)))"

text \<open>\<^verbatim>\<open>s.replace(old, new)\<close> for one-character \<open>old\<close> and \<open>new\<close>.\<close>

definition py_replace :: "char \<Rightarrow> char \<Rightarrow> string \<Rightarrow> string" where
  "py_replace old new s = map (\<lambda>c. if c = old then new else c) s"

definition lower_char :: "char \<Rightarrow> char" where
  "lower_char c =
     (let n = (of_char c :: nat) in if 65 \<le> n \<and> n \<le> 90 then char_of (n + 32) else c)"

text \<open>\<^verbatim>\<open>s.lower()\<close> on ASCII text.\<close>

definition py_lower :: "string \<Rightarrow> string" where
  "py_lower s = map lower_char s"

text \<open>\<^verbatim>\<open>sep.join(parts)\<close> for a list of texts.\<close>

fun py_join :: "string \<Rightarrow> string list \<Rightarrow> string" where
  "py_join sep [] = []"
| "py_join sep [x] = x"
| "py_join sep (x # y # ys) = x @ sep @ py_join sep (y # ys)"

subsection \<open>CayleyQuad\<close>

text \<open>
  The four attributes of a quad. \<open>_clean\<close> maps \<open>None\<close> to \<open>None\<close> for every attribute,
  not only for the label, so each attribute is a text or \<open>None\<close>.
\<close>

record CayleyQuad =
  subject :: "string option"
  predicate :: "string option"
  object :: "string option"
  label :: "string option"

subsection \<open>Python values\<close>

text \<open>
  The values a caller can hand to the dynamically typed methods: \<open>None\<close>, booleans,
  integers, text, lists, tuples, dictionaries with text keys (a structured record; the
  association list stands for the dictionary with these items, keys distinct), and the
  library's own objects: a \<open>CayleyQuad\<close>, or a query chain of class \<open>_Vertex\<close> or
  \<open>_Morphism\<close>. A chain holds its \<open>queryDeclarations\<close>, each a \<open>_QueryDefinition\<close> with a
  token and its parameters. The source stores a reference to a chain that is passed as
  a parameter of another chain; the model holds its value at the time of the call, and
  no property below depends on a chain that changes after it was stored.
\<close>

datatype path_class = Vertex_class | Morphism_class

datatype pyval =
    PNone
  | PBool bool
  | PInt int
  | PStr string
  | PList "pyval list"
  | PTuple "pyval list"
  | PDict "(string \<times> pyval) list"
  | PQuad CayleyQuad
  | PPath path
and path = Path (path_class: path_class) (queryDeclarations: "qdef list")
and qdef = QueryDefinition (token: string) (parameters: "pyval list")

text \<open>\<^verbatim>\<open>isinstance(v, _Vertex)\<close> and \<^verbatim>\<open>isinstance(v, _Morphism)\<close> (neither class has a
  subclass), \<^verbatim>\<open>type(v) is str\<close>, and whether a value is a dictionary.\<close>

fun isinstance_path :: "pyval \<Rightarrow> path_class \<Rightarrow> bool" where
  "isinstance_path (PPath p) cls = (path_class p = cls)"
| "isinstance_path v cls = False"

fun type_is_str :: "pyval \<Rightarrow> bool" where
  "type_is_str (PStr s) = True"
| "type_is_str v = False"

fun type_is_dict :: "pyval \<Rightarrow> bool" where
  "type_is_dict (PDict kvs) = True"
| "type_is_dict v = False"

subsection \<open>CayleyQuad: construction and serialization\<close>

text \<open>
  \<^verbatim>\<open>_clean\<close> (line 50): \<open>None\<close> stays \<open>None\<close>; a text is stripped, its spaces become
  underscores, and it is lowercased; any other value has no \<open>strip\<close> attribute.
\<close>

fun CayleyQuad_clean :: "pyval \<Rightarrow> exn + string option" where
  "CayleyQuad_clean PNone = Inr None"
| "CayleyQuad_clean (PStr s) = Inr (Some (py_lower (py_replace (CHR '' '') (CHR ''_'') (py_strip s))))"
| "CayleyQuad_clean v = Inl AttributeError"

text \<open>\<^verbatim>\<open>__init__\<close> (line 37): the four attributes are cleaned in order.\<close>

definition CayleyQuad_init :: "pyval \<Rightarrow> pyval \<Rightarrow> pyval \<Rightarrow> pyval \<Rightarrow> exn + CayleyQuad" where
  "CayleyQuad_init subj pred obj lab =
     (case CayleyQuad_clean subj of Inl e \<Rightarrow> Inl e | Inr s \<Rightarrow>
       (case CayleyQuad_clean pred of Inl e \<Rightarrow> Inl e | Inr p \<Rightarrow>
         (case CayleyQuad_clean obj of Inl e \<Rightarrow> Inl e | Inr ob \<Rightarrow>
           (case CayleyQuad_clean lab of Inl e \<Rightarrow> Inl e | Inr l \<Rightarrow>
              Inr \<lparr>subject = s, predicate = p, object = ob, label = l\<rparr>))))"

text \<open>An attribute read back as a Python value.\<close>

fun attr_value :: "string option \<Rightarrow> pyval" where
  "attr_value None = PNone"
| "attr_value (Some s) = PStr s"

text \<open>\<^verbatim>\<open>to_dict\<close> (line 56): the \<open>label\<close> item is added only when the label is not \<open>None\<close>.\<close>

definition to_dict_items :: "CayleyQuad \<Rightarrow> (string \<times> pyval) list" where
  "to_dict_items self =
     [(''subject'', attr_value (subject self)),
      (''predicate'', attr_value (predicate self)),
      (''object'', attr_value (object self))]
     @ (if label self \<noteq> None then [(''label'', attr_value (label self))] else [])"

definition CayleyQuad_to_dict :: "CayleyQuad \<Rightarrow> pyval" where
  "CayleyQuad_to_dict self = PDict (to_dict_items self)"

text \<open>
  \<^verbatim>\<open>cls(**obj)\<close>: binding the keyword arguments raises \<open>TypeError\<close> when \<open>obj\<close> is not a
  mapping, when a key is not a parameter of \<^verbatim>\<open>__init__\<close>, or when one of the required
  parameters is missing; \<open>label\<close> defaults to \<open>None\<close>. Only then does the body run.
\<close>

definition init_parameters :: "string list" where
  "init_parameters = [''subject'', ''predicate'', ''object'', ''label'']"

fun CayleyQuad_call_kwargs :: "pyval \<Rightarrow> exn + CayleyQuad" where
  "CayleyQuad_call_kwargs (PDict kvs) =
     (if \<exists>k \<in> set (map fst kvs). k \<notin> set init_parameters then Inl TypeError
      else case (map_of kvs ''subject'', map_of kvs ''predicate'', map_of kvs ''object'') of
        (Some s, Some p, Some ob) \<Rightarrow>
          CayleyQuad_init s p ob (case map_of kvs ''label'' of None \<Rightarrow> PNone | Some l \<Rightarrow> l)
      | _ \<Rightarrow> Inl TypeError)"
| "CayleyQuad_call_kwargs v = Inl TypeError"

text \<open>\<^verbatim>\<open>from_dict\<close> (line 66): a \<open>TypeError\<close> of the call becomes \<open>NotAValidQuadError\<close>;
  any other exception passes through.\<close>

definition CayleyQuad_from_dict :: "pyval \<Rightarrow> exn + CayleyQuad" where
  "CayleyQuad_from_dict obj =
     (case CayleyQuad_call_kwargs obj of
        Inl TypeError \<Rightarrow> Inl NotAValidQuadError
      | r \<Rightarrow> r)"

text \<open>
  \<^verbatim>\<open>json.loads\<close> is the standard library's decoder, outside the source. Its result on a
  text is the parameter \<open>ld\<close>: \<open>None\<close> where the decoder rejects the text (it raises a
  \<open>ValueError\<close>), the decoded value otherwise. On a value that is not a text it raises
  \<open>TypeError\<close>.
\<close>

fun json_loads :: "(string \<Rightarrow> pyval option) \<Rightarrow> pyval \<Rightarrow> exn + pyval" where
  "json_loads ld (PStr t) = (case ld t of None \<Rightarrow> Inl ValueError | Some v \<Rightarrow> Inr v)"
| "json_loads ld v = Inl TypeError"

text \<open>\<^verbatim>\<open>from_json\<close> (line 73): a \<open>ValueError\<close> of the decoder or of \<open>from_dict\<close> becomes
  \<open>NotAValidQuadError\<close>; any other exception passes through.\<close>

definition CayleyQuad_from_json :: "(string \<Rightarrow> pyval option) \<Rightarrow> pyval \<Rightarrow> exn + CayleyQuad" where
  "CayleyQuad_from_json ld obj =
     (case (case json_loads ld obj of Inl e \<Rightarrow> Inl e | Inr v \<Rightarrow> CayleyQuad_from_dict v) of
        Inl ValueError \<Rightarrow> Inl NotAValidQuadError
      | r \<Rightarrow> r)"

subsection \<open>CayleyQuad: equality and hash\<close>

definition same_attributes :: "CayleyQuad \<Rightarrow> CayleyQuad \<Rightarrow> bool" where
  "same_attributes self other =
     (subject self = subject other \<and>
      predicate self = predicate other \<and>
      object self = object other \<and>
      label self = label other)"

text \<open>
  \<^verbatim>\<open>__eq__\<close> (line 79). A value that is not a \<open>CayleyQuad\<close> goes through \<open>from_dict\<close>;
  when that raises \<open>NotAValidQuadError\<close> it goes through \<open>from_json\<close>; when that raises
  \<open>NotAValidQuadError\<close> too the result is \<open>False\<close>. Neither \<open>except\<close> clause catches
  another exception.
\<close>

definition CayleyQuad_eq :: "(string \<Rightarrow> pyval option) \<Rightarrow> CayleyQuad \<Rightarrow> pyval \<Rightarrow> exn + bool" where
  "CayleyQuad_eq ld self other =
     (case other of
        PQuad q \<Rightarrow> Inr (same_attributes self q)
      | _ \<Rightarrow>
        (case CayleyQuad_from_dict other of
           Inr q \<Rightarrow> Inr (same_attributes self q)
         | Inl NotAValidQuadError \<Rightarrow>
             (case CayleyQuad_from_json ld other of
                Inr q \<Rightarrow> Inr (same_attributes self q)
              | Inl NotAValidQuadError \<Rightarrow> Inr False
              | Inl e \<Rightarrow> Inl e)
         | Inl e \<Rightarrow> Inl e))"

text \<open>
  \<^verbatim>\<open>__hash__\<close> (line 95). The hash of a text and the hash of \<open>None\<close> are the runtime's:
  \<open>hs\<close> and \<open>hn\<close>. Python integers do not overflow.
\<close>

fun attr_hash :: "(string \<Rightarrow> int) \<Rightarrow> int \<Rightarrow> string option \<Rightarrow> int" where
  "attr_hash hs hn None = hn"
| "attr_hash hs hn (Some s) = hs s"

definition CayleyQuad_hash :: "(string \<Rightarrow> int) \<Rightarrow> int \<Rightarrow> CayleyQuad \<Rightarrow> int" where
  "CayleyQuad_hash hs hn self =
     3 * attr_hash hs hn (subject self) +
     5 * attr_hash hs hn (predicate self) +
     7 * attr_hash hs hn (object self) +
     11 * attr_hash hs hn (label self)"

subsection \<open>CayleyQuads\<close>

text \<open>
  The \<open>quads\<close> attribute holds whatever the constructor was given: a set of quads, as
  the docstring says, or a list; without an argument it is the empty list (line 116).
  A Python set of quads keeps one member per class of \<^verbatim>\<open>__eq__\<close>, which on two quads
  is equality of the four attributes, and equal quads have equal hashes; so it is a set of
  records.
\<close>

datatype quads_value = QuadList "CayleyQuad list" | QuadSet "CayleyQuad set"

record CayleyQuads =
  quads :: quads_value

definition CayleyQuads_init :: "quads_value option \<Rightarrow> CayleyQuads" where
  "CayleyQuads_init arg = \<lparr>quads = (case arg of Some v \<Rightarrow> v | None \<Rightarrow> QuadList [])\<rparr>"

text \<open>\<^verbatim>\<open>add_quad\<close> (line 118): \<^verbatim>\<open>self.quads.add(quad)\<close>; a list has no \<open>add\<close>.\<close>

definition CayleyQuads_add_quad :: "CayleyQuad \<Rightarrow> CayleyQuads \<Rightarrow> (exn + unit) \<times> CayleyQuads" where
  "CayleyQuads_add_quad quad self =
     (case quads self of
        QuadSet s \<Rightarrow> (Inr (), self\<lparr>quads := QuadSet (insert quad s)\<rparr>)
      | QuadList xs \<Rightarrow> (Inl AttributeError, self))"

text \<open>
  \<^verbatim>\<open>add_quads\<close> (line 121): \<^verbatim>\<open>self.quads | set(quads)\<close> is an expression statement.
  The union is computed and dropped; \<open>self.quads\<close> is not assigned. A list and a set
  have no \<open>|\<close>.
\<close>

definition CayleyQuads_add_quads :: "CayleyQuad list \<Rightarrow> CayleyQuads \<Rightarrow> (exn + unit) \<times> CayleyQuads" where
  "CayleyQuads_add_quads qs self =
     (case quads self of
        QuadSet s \<Rightarrow> (let merged = s \<union> set qs in (Inr (), self))
      | QuadList xs \<Rightarrow> (Inl TypeError, self))"

subsection \<open>Formatting\<close>

text \<open>The single quote.\<close>

definition quote :: "string" where
  "quote = [CHR 0x27]"

text \<open>
  \<^verbatim>\<open>'{0:s}'.format(v)\<close>: the format code \<open>s\<close> is accepted by a text only. An integer
  or a boolean raises \<open>ValueError\<close> (unknown format code); every other value inherits
  \<open>object.__format__\<close>, which raises \<open>TypeError\<close> on a format specification that is not
  empty.
\<close>

fun format_s :: "pyval \<Rightarrow> exn + string" where
  "format_s (PStr s) = Inr s"
| "format_s (PInt i) = Inl ValueError"
| "format_s (PBool b) = Inl ValueError"
| "format_s v = Inl TypeError"

text \<open>
  \<^verbatim>\<open>token % parameters\<close> with a tuple on the right. The tokens of the source contain
  the conversion \<open>%s\<close> (and \<open>%%\<close> is the escape); the converted arguments are handed over
  in order, each the outcome of \<open>str\<close> on the parameter, which is looked at only when its
  conversion is reached. Too few arguments, and arguments left over at the end, raise
  \<open>TypeError\<close>; an incomplete or unsupported conversion raises \<open>ValueError\<close>.
\<close>

fun pct_format :: "string \<Rightarrow> (exn + string) list \<Rightarrow> exn + string" where
  "pct_format [] args = (if args = [] then Inr [] else Inl TypeError)"
| "pct_format (c # cs) args =
     (if c \<noteq> CHR ''%'' then
        (case pct_format cs args of Inl e \<Rightarrow> Inl e | Inr r \<Rightarrow> Inr (c # r))
      else
        (case cs of
           [] \<Rightarrow> Inl ValueError
         | d # rest \<Rightarrow>
             if d = CHR ''s'' then
               (case args of
                  [] \<Rightarrow> Inl TypeError
                | a # args' \<Rightarrow>
                    (case a of
                       Inl e \<Rightarrow> Inl e
                     | Inr s \<Rightarrow>
                         (case pct_format rest args' of Inl e \<Rightarrow> Inl e | Inr r \<Rightarrow> Inr (s @ r))))
             else if d = CHR ''%'' then
               (case pct_format rest args of Inl e \<Rightarrow> Inl e | Inr r \<Rightarrow> Inr (CHR ''%'' # r))
             else Inl ValueError))"

text \<open>The results of a list comprehension: the first exception ends it.\<close>

fun collect :: "(exn + 'a) list \<Rightarrow> exn + 'a list" where
  "collect [] = Inr []"
| "collect (Inl e # rs) = Inl e"
| "collect (Inr x # rs) = (case collect rs of Inl e \<Rightarrow> Inl e | Inr xs \<Rightarrow> Inr (x # xs))"

text \<open>
  \<^verbatim>\<open>sep.join(items)\<close> on arbitrary values: an item that is not a text raises
  \<open>TypeError\<close>.
\<close>

fun the_str :: "pyval \<Rightarrow> string" where
  "the_str (PStr s) = s"
| "the_str v = []"

definition str_join :: "string \<Rightarrow> pyval list \<Rightarrow> exn + string" where
  "str_join sep items =
     (if \<forall>v \<in> set items. type_is_str v then Inr (py_join sep (map the_str items))
      else Inl TypeError)"

subsection \<open>_QueryDefinition and _GremlinQuery\<close>

text \<open>
  \<open>str(v)\<close> of a parameter, \<^verbatim>\<open>_QueryDefinition.__str__\<close> (line 339) and
  \<^verbatim>\<open>_GremlinQuery.__str__\<close> (line 168). \<open>str\<close> of a text is the text, \<open>str\<close> of a chain
  is its \<^verbatim>\<open>__str__\<close>; \<open>str\<close> of any other value is the runtime's, the parameter \<open>rt\<close>.
  A step without parameters is its token, unformatted.
\<close>

fun py_str :: "(pyval \<Rightarrow> string) \<Rightarrow> pyval \<Rightarrow> exn + string"
  and QueryDefinition_str :: "(pyval \<Rightarrow> string) \<Rightarrow> qdef \<Rightarrow> exn + string"
  and GremlinQuery_str :: "(pyval \<Rightarrow> string) \<Rightarrow> path \<Rightarrow> exn + string"
where
  "py_str rt (PStr s) = Inr s"
| "py_str rt (PPath p) = GremlinQuery_str rt p"
| "py_str rt v = Inr (rt v)"
| "QueryDefinition_str rt (QueryDefinition tok ps) =
     (if length ps > 0 then pct_format tok (map (py_str rt) ps) else Inr tok)"
| "GremlinQuery_str rt (Path cls ds) =
     (case collect (map (QueryDefinition_str rt) ds) of
        Inl e \<Rightarrow> Inl e
      | Inr parts \<Rightarrow> Inr (py_join ''.'' parts))"

text \<open>
  The runtime in which \<open>str\<close> of every value that is neither a text nor a chain is the
  empty text: it stands for any runtime where no such value is formatted.
\<close>

definition blank_str :: "pyval \<Rightarrow> string" where
  "blank_str v = []"

text \<open>\<^verbatim>\<open>_put\<close> (line 171): one \<open>_QueryDefinition\<close> is appended.\<close>

fun GremlinQuery_put :: "string \<Rightarrow> pyval list \<Rightarrow> path \<Rightarrow> path" where
  "GremlinQuery_put tok ps (Path cls ds) = Path cls (ds @ [QueryDefinition tok ps])"

subsection \<open>_Path, _Vertex and _Morphism\<close>

text \<open>\<^verbatim>\<open>_Path.__init__\<close> (line 211): an empty list of declarations, then the root step.\<close>

definition Path_init :: "path_class \<Rightarrow> string \<Rightarrow> path" where
  "Path_init cls parent = GremlinQuery_put parent [] (Path cls [])"

text \<open>
  The fluent methods return \<open>self\<close>; the model returns the outcome and the state of
  \<open>self\<close> after the call.

  \<^verbatim>\<open>Is\<close> (line 257): the separator of the join is quote, comma, space, quote.
\<close>

definition Path_Is :: "pyval list \<Rightarrow> path \<Rightarrow> (exn + unit) \<times> path" where
  "Path_Is nodes self =
     (case str_join (quote @ '', '' @ quote) nodes of
        Inl e \<Rightarrow> (Inl e, self)
      | Inr joined \<Rightarrow> (Inr (), GremlinQuery_put ''Is('%s')'' [PStr joined] self))"

text \<open>\<^verbatim>\<open>Intersect\<close>, \<^verbatim>\<open>Union\<close>, \<^verbatim>\<open>Follow\<close> and \<^verbatim>\<open>FollowR\<close> (lines 282 to 312).\<close>

definition Path_Intersect :: "pyval \<Rightarrow> path \<Rightarrow> (exn + unit) \<times> path" where
  "Path_Intersect query self =
     (if \<not> isinstance_path query Vertex_class \<and> \<not> type_is_str query
      then (Inl (Exception ''Invalid parameter in intersect query''), self)
      else (Inr (), GremlinQuery_put ''Intersect(%s)'' [query] self))"

definition Path_Union :: "pyval \<Rightarrow> path \<Rightarrow> (exn + unit) \<times> path" where
  "Path_Union query self =
     (if \<not> isinstance_path query Vertex_class \<and> \<not> type_is_str query
      then (Inl (Exception ''Invalid parameter in union query''), self)
      else (Inr (), GremlinQuery_put ''Union(%s)'' [query] self))"

definition Path_Follow :: "pyval \<Rightarrow> path \<Rightarrow> (exn + unit) \<times> path" where
  "Path_Follow query self =
     (if \<not> isinstance_path query Morphism_class \<and> \<not> type_is_str query
      then (Inl (Exception ''Invalid parameter in follow query''), self)
      else (Inr (), GremlinQuery_put ''Follow(%s)'' [query] self))"

definition Path_FollowR :: "pyval \<Rightarrow> path \<Rightarrow> (exn + unit) \<times> path" where
  "Path_FollowR query self =
     (if \<not> isinstance_path query Morphism_class \<and> \<not> type_is_str query
      then (Inl (Exception ''Invalid parameter in followr query''), self)
      else (Inr (), GremlinQuery_put ''FollowR(%s)'' [query] self))"

text \<open>\<^verbatim>\<open>build\<close> (line 314) is \<open>str(self)\<close>.\<close>

definition Path_build :: "(pyval \<Rightarrow> string) \<Rightarrow> path \<Rightarrow> exn + string" where
  "Path_build rt self = GremlinQuery_str rt self"

text \<open>\<^verbatim>\<open>All\<close> (line 319) is a method of \<open>_Vertex\<close> only.\<close>

definition Vertex_All :: "path \<Rightarrow> (exn + unit) \<times> path" where
  "Vertex_All self =
     (if path_class self = Vertex_class then (Inr (), GremlinQuery_put ''All()'' [] self)
      else (Inl AttributeError, self))"

subsection \<open>GraphObject\<close>

text \<open>
  \<^verbatim>\<open>V\<close> (line 180; the definition at line 177 is overwritten by it). The loop appends
  one quoted id per turn, with a comma after every id but the last.
\<close>

fun V_loop :: "nat \<Rightarrow> nat \<Rightarrow> pyval list \<Rightarrow> string list \<Rightarrow> exn + string list" where
  "V_loop l index [] builder = Inr builder"
| "V_loop l index (node_id # rest) builder =
     (case format_s node_id of
        Inl e \<Rightarrow> Inl e
      | Inr s \<Rightarrow>
          if int index = int l - 1
          then V_loop l (index + 1) rest (builder @ [quote @ s @ quote])
          else V_loop l (index + 1) rest (builder @ [quote @ s @ quote @ '','']))"

definition GraphObject_V :: "pyval list \<Rightarrow> exn + path" where
  "GraphObject_V node_ids =
     (case V_loop (length node_ids) 0 node_ids [] of
        Inl e \<Rightarrow> Inl e
      | Inr builder \<Rightarrow> Inr (Path_init Vertex_class (''g.V('' @ concat builder @ '')'')))"

text \<open>\<^verbatim>\<open>M\<close> (line 191).\<close>

definition GraphObject_M :: "path" where
  "GraphObject_M = Path_init Morphism_class ''g.Morphism()''"

text \<open>
  \<^verbatim>\<open>Vertex\<close> (line 197; it overwrites line 194). With ids, the tuple \<open>node_ids\<close> itself
  is the one positional argument of \<open>V\<close>.
\<close>

definition GraphObject_Vertex :: "pyval list \<Rightarrow> exn + path" where
  "GraphObject_Vertex node_ids =
     (if length node_ids = 0 then GraphObject_V []
      else GraphObject_V [PTuple node_ids])"

subsection \<open>The documented behaviour, for comparison\<close>

text \<open>A text between single quotes.\<close>

definition quoted :: "string \<Rightarrow> string" where
  "quoted s = quote @ s @ quote"

text \<open>
  The root step of a vertex chain as the specification words it: \<open>g.V()\<close> without ids,
  otherwise each id individually single-quoted, the quoted ids joined by commas, no
  trailing comma.
\<close>

definition spec_V_root :: "string list \<Rightarrow> string" where
  "spec_V_root ids = ''g.V('' @ py_join '','' (map quoted ids) @ '')''"

text \<open>
  The \<open>Is\<close> step read as one quoted run: the ids joined by comma and space inside a
  single pair of quotes.
\<close>

definition spec_Is_one_run :: "string list \<Rightarrow> string" where
  "spec_Is_one_run ids = ''Is('' @ quoted (py_join '', '' ids) @ '')''"

text \<open>The \<open>Is\<close> step with every id quoted on its own, the quoted ids joined by comma and
  space.\<close>

definition Is_each_quoted :: "string list \<Rightarrow> string" where
  "Is_each_quoted ids = ''Is('' @ py_join '', '' (map quoted ids) @ '')''"

text \<open>What \<open>_clean\<close> does to one character of a stripped text.\<close>

definition clean_char :: "char \<Rightarrow> char" where
  "clean_char c = lower_char (if c = CHR '' '' then CHR ''_'' else c)"

section \<open>Properties\<close>

subsection \<open>Canonical form\<close>

lemma clean_as_map: "py_lower (py_replace (CHR '' '') (CHR ''_'') s) = map clean_char s"
  by (simp add: py_lower_def py_replace_def clean_char_def)

lemma of_char_lower:
  "65 \<le> (of_char c :: nat) \<Longrightarrow> (of_char c :: nat) \<le> 90 \<Longrightarrow>
   (of_char (lower_char c) :: nat) = of_char c + 32"
  by (simp add: lower_char_def Let_def)

lemma lower_char_idem: "lower_char (lower_char c) = lower_char c"
proof (cases "65 \<le> (of_char c :: nat) \<and> (of_char c :: nat) \<le> 90")
  case True
  then have "(of_char (lower_char c) :: nat) = of_char c + 32" by (simp add: of_char_lower)
  with True have "\<not> ((of_char (lower_char c) :: nat) \<le> 90)" by simp
  then show ?thesis by (simp add: lower_char_def[of "lower_char c"] Let_def)
next
  case False
  then show ?thesis by (auto simp add: lower_char_def Let_def)
qed

lemma lower_char_space: "is_space (lower_char c) = is_space c"
proof (cases "65 \<le> (of_char c :: nat) \<and> (of_char c :: nat) \<le> 90")
  case True
  then have "(of_char (lower_char c) :: nat) = of_char c + 32" by (simp add: of_char_lower)
  with True show ?thesis by (auto simp add: is_space_def)
next
  case False
  then show ?thesis by (auto simp add: lower_char_def Let_def)
qed

lemma lower_char_eq_space: "lower_char c = CHR '' '' \<Longrightarrow> c = CHR '' ''"
proof (cases "65 \<le> (of_char c :: nat) \<and> (of_char c :: nat) \<le> 90")
  case True
  assume a: "lower_char c = CHR '' ''"
  from True have "(of_char (lower_char c) :: nat) = of_char c + 32" by (simp add: of_char_lower)
  with a True show ?thesis by simp
next
  case False
  assume "lower_char c = CHR '' ''"
  with False show ?thesis by (auto simp add: lower_char_def Let_def)
qed

lemma clean_char_idem: "clean_char (clean_char c) = clean_char c"
proof (cases "c = CHR '' ''")
  case True
  then show ?thesis by (simp add: clean_char_def lower_char_def Let_def)
next
  case False
  then have "clean_char c = lower_char c" by (simp add: clean_char_def)
  moreover have "lower_char c \<noteq> CHR '' ''" using False lower_char_eq_space by blast
  ultimately show ?thesis by (simp add: clean_char_def lower_char_idem)
qed

lemma clean_char_not_space: "\<not> is_space c \<Longrightarrow> \<not> is_space (clean_char c)"
proof -
  assume a: "\<not> is_space c"
  then have "c \<noteq> CHR '' ''" by (auto simp add: is_space_def)
  then show ?thesis using a by (simp add: clean_char_def lower_char_space)
qed

text \<open>A stripped text that is not empty neither starts nor ends with whitespace.\<close>

lemma py_strip_ends:
  assumes "py_strip xs \<noteq> []"
  shows "\<not> is_space (hd (py_strip xs)) \<and> \<not> is_space (last (py_strip xs))"
proof -
  define ys where "ys = dropWhile is_space xs"
  define zs where "zs = dropWhile is_space (rev ys)"
  have strip: "py_strip xs = rev zs" by (simp add: py_strip_def ys_def zs_def)
  with assms have zs: "zs \<noteq> []" by simp
  then have hdzs: "\<not> is_space (hd zs)" unfolding zs_def by (rule hd_dropWhile)
  from zs obtain x where x: "x \<in> set (rev ys)" "\<not> is_space x"
    unfolding zs_def by auto
  then have "last zs = last (rev ys)" unfolding zs_def by (rule dropWhile_last)
  moreover from x have ys: "ys \<noteq> []" by auto
  ultimately have "last zs = hd ys" by (simp add: last_rev)
  moreover from ys have "\<not> is_space (hd ys)" unfolding ys_def by (rule hd_dropWhile)
  ultimately have "\<not> is_space (last zs)" by simp
  with hdzs zs show ?thesis by (simp add: strip hd_rev last_rev)
qed

lemma py_strip_fix:
  assumes "xs = [] \<or> (\<not> is_space (hd xs) \<and> \<not> is_space (last xs))"
  shows "py_strip xs = xs"
proof (cases "xs = []")
  case True
  then show ?thesis by (simp add: py_strip_def)
next
  case False
  with assms have h: "\<not> is_space (hd xs)" and l: "\<not> is_space (last xs)" by auto
  from False h have 1: "dropWhile is_space xs = xs" by (simp add: dropWhile_eq_self_iff)
  from False l have 2: "dropWhile is_space (rev xs) = rev xs"
    by (simp add: dropWhile_eq_self_iff hd_rev)
  show ?thesis by (simp add: py_strip_def 1 2)
qed

text \<open>Cleaning a cleaned text changes nothing.\<close>

lemma clean_text_idem:
  "py_lower (py_replace (CHR '' '') (CHR ''_'') (py_strip
     (py_lower (py_replace (CHR '' '') (CHR ''_'') (py_strip s))))) =
   py_lower (py_replace (CHR '' '') (CHR ''_'') (py_strip s))"
proof -
  let ?t = "map clean_char (py_strip s)"
  have "py_strip ?t = ?t"
  proof (rule py_strip_fix, cases "py_strip s = []")
    case True
    then show "?t = [] \<or> (\<not> is_space (hd ?t) \<and> \<not> is_space (last ?t))" by simp
  next
    case False
    then have "\<not> is_space (hd (py_strip s)) \<and> \<not> is_space (last (py_strip s))"
      by (rule py_strip_ends)
    with False show "?t = [] \<or> (\<not> is_space (hd ?t) \<and> \<not> is_space (last ?t))"
      by (simp add: hd_map last_map clean_char_not_space)
  qed
  then show ?thesis by (simp add: clean_as_map clean_char_idem)
qed

lemma CayleyQuad_clean_fix:
  "CayleyQuad_clean v = Inr a \<Longrightarrow> CayleyQuad_clean (attr_value a) = Inr a"
  by (cases v) (auto simp add: clean_text_idem)

lemma CayleyQuad_init_attrs:
  assumes "CayleyQuad_init s p ob l = Inr q"
  shows "CayleyQuad_clean (attr_value (subject q)) = Inr (subject q)"
    and "CayleyQuad_clean (attr_value (predicate q)) = Inr (predicate q)"
    and "CayleyQuad_clean (attr_value (object q)) = Inr (object q)"
    and "CayleyQuad_clean (attr_value (label q)) = Inr (label q)"
  using assms
  by (auto simp add: CayleyQuad_init_def CayleyQuad_clean_fix split: sum.splits)

lemma CayleyQuad_init_canonical:
  assumes "CayleyQuad_init s p ob l = Inr q"
  shows "CayleyQuad_init (attr_value (subject q)) (attr_value (predicate q))
           (attr_value (object q)) (attr_value (label q)) = Inr q"
  using CayleyQuad_init_attrs[OF assms] by (simp add: CayleyQuad_init_def)

subsection \<open>Quads\<close>

text \<open>
  Claim C6. Every quad the constructor builds survives the record round trip:
  \<open>from_dict\<close> of its \<open>to_dict\<close> succeeds, the quad it returns is the same quad and
  \<^verbatim>\<open>__eq__\<close> says so; the record has no \<open>label\<close> key when the label is \<open>None\<close>, and has
  one when it is a text.
\<close>

theorem CayleyQuad_record_round_trip:
  assumes "CayleyQuad_init s p ob l = Inr q"
  shows "CayleyQuad_from_dict (CayleyQuad_to_dict q) = Inr q
       \<and> (\<exists>q'. CayleyQuad_from_dict (CayleyQuad_to_dict q) = Inr q'
              \<and> CayleyQuad_eq ld q' (PQuad q) = Inr True)
       \<and> (label q = None \<longrightarrow>
            CayleyQuad_to_dict q =
              PDict [(''subject'', attr_value (subject q)),
                     (''predicate'', attr_value (predicate q)),
                     (''object'', attr_value (object q))])
       \<and> (\<forall>t. label q = Some t \<longrightarrow>
            CayleyQuad_to_dict q =
              PDict [(''subject'', attr_value (subject q)),
                     (''predicate'', attr_value (predicate q)),
                     (''object'', attr_value (object q)),
                     (''label'', PStr t)])"
proof -
  have canon: "CayleyQuad_init (attr_value (subject q)) (attr_value (predicate q))
                 (attr_value (object q)) (attr_value (label q)) = Inr q"
    using assms by (rule CayleyQuad_init_canonical)
  have call: "CayleyQuad_call_kwargs (CayleyQuad_to_dict q) = Inr q"
  proof (cases "label q")
    case None
    with canon show ?thesis
      by (simp add: CayleyQuad_to_dict_def to_dict_items_def init_parameters_def)
  next
    case (Some t)
    with canon show ?thesis
      by (simp add: CayleyQuad_to_dict_def to_dict_items_def init_parameters_def)
  qed
  then have again: "CayleyQuad_from_dict (CayleyQuad_to_dict q) = Inr q"
    by (simp add: CayleyQuad_from_dict_def)
  have same: "CayleyQuad_eq ld q (PQuad q) = Inr True"
    by (simp add: CayleyQuad_eq_def same_attributes_def)
  have absent: "label q = None \<longrightarrow>
      CayleyQuad_to_dict q =
        PDict [(''subject'', attr_value (subject q)),
               (''predicate'', attr_value (predicate q)),
               (''object'', attr_value (object q))]"
    by (simp add: CayleyQuad_to_dict_def to_dict_items_def)
  have present: "\<forall>t. label q = Some t \<longrightarrow>
      CayleyQuad_to_dict q =
        PDict [(''subject'', attr_value (subject q)),
               (''predicate'', attr_value (predicate q)),
               (''object'', attr_value (object q)),
               (''label'', PStr t)]"
    by (simp add: CayleyQuad_to_dict_def to_dict_items_def)
  from again same absent present show ?thesis by simp
qed

theorem CayleyQuad_record_round_trip_witness:
  "CayleyQuad_init (PStr ''  Alice Smith '') (PStr ''FOLLOWS'') (PStr ''Bob'') PNone =
     Inr \<lparr>subject = Some ''alice_smith'', predicate = Some ''follows'',
          object = Some ''bob'', label = None\<rparr>
   \<and> CayleyQuad_to_dict \<lparr>subject = Some ''alice_smith'', predicate = Some ''follows'',
          object = Some ''bob'', label = None\<rparr> =
       PDict [(''subject'', PStr ''alice_smith''), (''predicate'', PStr ''follows''),
              (''object'', PStr ''bob'')]
   \<and> CayleyQuad_from_dict
       (PDict [(''subject'', PStr ''alice_smith''), (''predicate'', PStr ''follows''),
               (''object'', PStr ''bob'')]) =
       Inr \<lparr>subject = Some ''alice_smith'', predicate = Some ''follows'',
            object = Some ''bob'', label = None\<rparr>"
proof -
  let ?q = "\<lparr>subject = Some ''alice_smith'', predicate = Some ''follows'',
             object = Some ''bob'', label = None\<rparr>"
  have built: "CayleyQuad_init (PStr ''  Alice Smith '') (PStr ''FOLLOWS'') (PStr ''Bob'') PNone
                 = Inr ?q"
    by code_simp
  have rec: "CayleyQuad_to_dict ?q =
       PDict [(''subject'', PStr ''alice_smith''), (''predicate'', PStr ''follows''),
              (''object'', PStr ''bob'')]"
    by (simp add: CayleyQuad_to_dict_def to_dict_items_def)
  have "CayleyQuad_from_dict (CayleyQuad_to_dict ?q) = Inr ?q"
    using CayleyQuad_record_round_trip [OF built, of "\<lambda>t. None"] by (rule conjunct1)
  with built rec show ?thesis by simp
qed

text \<open>
  Claim C5. The hash is 3, 5, 7 and 11 times the hashes of subject, predicate, object
  and label, summed; two quads with the same four attributes have the same hash; a
  label that is \<open>None\<close> contributes 11 times the hash of \<open>None\<close>, whatever the quad.
\<close>

theorem CayleyQuad_hash_weighted_sum:
  "CayleyQuad_hash hs hn q =
      3 * attr_hash hs hn (subject q) + 5 * attr_hash hs hn (predicate q) +
      7 * attr_hash hs hn (object q) + 11 * attr_hash hs hn (label q)
   \<and> (same_attributes q1 q2 \<longrightarrow> CayleyQuad_hash hs hn q1 = CayleyQuad_hash hs hn q2)
   \<and> (CayleyQuad_eq ld q1 (PQuad q2) = Inr True \<longrightarrow>
        CayleyQuad_hash hs hn q1 = CayleyQuad_hash hs hn q2)
   \<and> (label q = None \<longrightarrow>
        CayleyQuad_hash hs hn q =
          3 * attr_hash hs hn (subject q) + 5 * attr_hash hs hn (predicate q) +
          7 * attr_hash hs hn (object q) + 11 * hn)"
  by (simp add: CayleyQuad_hash_def CayleyQuad_eq_def same_attributes_def)

theorem CayleyQuad_hash_weighted_sum_witness:
  "same_attributes
     \<lparr>subject = Some ''ab'', predicate = Some ''c'', object = Some ''def'', label = None\<rparr>
     \<lparr>subject = Some ''ab'', predicate = Some ''c'', object = Some ''def'', label = None\<rparr>
   \<and> label \<lparr>subject = Some ''ab'', predicate = Some ''c'', object = Some ''def'',
             label = None\<rparr> = None
   \<and> CayleyQuad_hash (\<lambda>s. int (length s)) (- 1)
       \<lparr>subject = Some ''ab'', predicate = Some ''c'', object = Some ''def'', label = None\<rparr>
       = 3 * 2 + 5 * 1 + 7 * 3 + 11 * (- 1)"
  using CayleyQuad_hash_weighted_sum
    [of "\<lambda>s. int (length s)" "- 1"
        "\<lparr>subject = Some ''ab'', predicate = Some ''c'', object = Some ''def'', label = None\<rparr>"
        "\<lparr>subject = Some ''ab'', predicate = Some ''c'', object = Some ''def'', label = None\<rparr>"
        "\<lparr>subject = Some ''ab'', predicate = Some ''c'', object = Some ''def'', label = None\<rparr>"
        "\<lambda>t. None"]
  by (simp add: same_attributes_def)

text \<open>
  Claim C2, at a record that lacks two required keys and at an integer: \<open>from_dict\<close>
  raises \<open>NotAValidQuadError\<close>, then the decoder inside \<open>from_json\<close> raises \<open>TypeError\<close>
  on a value that is not a text, which no \<open>except\<close> clause on the way catches:
  \<^verbatim>\<open>__eq__\<close> raises \<open>TypeError\<close>. It returns \<open>False\<close> for a text the decoder rejects.
\<close>

theorem CayleyQuad_eq_raises_on_non_text:
  "CayleyQuad_eq ld q (PDict [(''subject'', PStr ''a'')]) = Inl TypeError
   \<and> CayleyQuad_eq ld q (PInt 5) = Inl TypeError
   \<and> CayleyQuad_from_dict (PDict [(''subject'', PStr ''a'')]) = Inl NotAValidQuadError
   \<and> CayleyQuad_from_json ld (PDict [(''subject'', PStr ''a'')]) = Inl TypeError"
  by (simp add: CayleyQuad_eq_def CayleyQuad_from_dict_def CayleyQuad_from_json_def
      init_parameters_def)

text \<open>
  Where both coercions do end in \<open>NotAValidQuadError\<close>, as for a text that the decoder
  rejects or decodes to something that is not a record, \<^verbatim>\<open>__eq__\<close> returns \<open>False\<close>.
\<close>

lemma CayleyQuad_eq_text_False:
  assumes "ld t = None \<or> (\<exists>v. ld t = Some v \<and> \<not> type_is_dict v)"
  shows "CayleyQuad_eq ld q (PStr t) = Inr False"
proof -
  have 1: "CayleyQuad_from_dict (PStr t) = Inl NotAValidQuadError"
    by (simp add: CayleyQuad_from_dict_def)
  have 2: "CayleyQuad_from_json ld (PStr t) = Inl NotAValidQuadError"
  proof (cases "ld t")
    case None
    then show ?thesis by (simp add: CayleyQuad_from_json_def)
  next
    case (Some v)
    with assms have "\<not> type_is_dict v" by auto
    then have "CayleyQuad_call_kwargs v = Inl TypeError" by (cases v) simp_all
    with Some show ?thesis by (simp add: CayleyQuad_from_json_def CayleyQuad_from_dict_def)
  qed
  from 1 2 show ?thesis by (simp add: CayleyQuad_eq_def)
qed

subsection \<open>Quad sets\<close>

text \<open>
  Claim C4, at the set built without an argument: its \<open>quads\<close> is the empty list, and
  \<open>add_quad\<close> raises \<open>AttributeError\<close> and adds nothing.
\<close>

theorem add_quad_fresh_raises:
  "CayleyQuads_add_quad q (CayleyQuads_init None) = (Inl AttributeError, CayleyQuads_init None)
   \<and> quads (CayleyQuads_init None) = QuadList []"
  by (simp add: CayleyQuads_add_quad_def CayleyQuads_init_def)

text \<open>On a set of quads, adding a quad and then an equal quad leaves one member for them.\<close>

lemma add_quad_set_idempotent:
  assumes "CayleyQuad_eq ld q1 (PQuad q2) = Inr True"
  shows "snd (CayleyQuads_add_quad q2 (snd (CayleyQuads_add_quad q1 (CayleyQuads_init (Some (QuadSet S))))))
          = snd (CayleyQuads_add_quad q1 (CayleyQuads_init (Some (QuadSet S))))"
proof -
  from assms have "q1 = q2" by (simp add: CayleyQuad_eq_def same_attributes_def)
  then show ?thesis by (simp add: CayleyQuads_add_quad_def CayleyQuads_init_def)
qed

text \<open>
  Claim C1, at a set holding one quad and a sequence holding another: the set is
  unchanged after \<open>add_quads\<close>, and so is not the union.
\<close>

theorem add_quads_drops_union:
  "CayleyQuads_add_quads
     [\<lparr>subject = Some ''c'', predicate = Some ''p'', object = Some ''d'', label = None\<rparr>]
     (CayleyQuads_init (Some (QuadSet
       {\<lparr>subject = Some ''a'', predicate = Some ''p'', object = Some ''b'', label = None\<rparr>})))
   = (Inr (), \<lparr>quads = QuadSet
       {\<lparr>subject = Some ''a'', predicate = Some ''p'', object = Some ''b'', label = None\<rparr>}\<rparr>)
   \<and> QuadSet {\<lparr>subject = Some ''a'', predicate = Some ''p'', object = Some ''b'', label = None\<rparr>}
     \<noteq> QuadSet
        ({\<lparr>subject = Some ''a'', predicate = Some ''p'', object = Some ''b'', label = None\<rparr>}
         \<union> set [\<lparr>subject = Some ''c'', predicate = Some ''p'', object = Some ''d'',
                   label = None\<rparr>])"
  by (simp add: CayleyQuads_add_quads_def CayleyQuads_init_def)

text \<open>\<open>add_quads\<close> never changes the set it is called on.\<close>

lemma add_quads_unchanged: "snd (CayleyQuads_add_quads qs S) = S"
  by (simp add: CayleyQuads_add_quads_def split: quads_value.splits)

subsection \<open>Record and text coercion\<close>

text \<open>The cases in which binding the keyword arguments raises \<open>TypeError\<close>.\<close>

lemma call_kwargs_unknown_key:
  "\<exists>k \<in> set (map fst kvs). k \<notin> set init_parameters \<Longrightarrow>
   CayleyQuad_call_kwargs (PDict kvs) = Inl TypeError"
  by simp

lemma call_kwargs_missing_key:
  "map_of kvs ''subject'' = None \<or> map_of kvs ''predicate'' = None
     \<or> map_of kvs ''object'' = None \<Longrightarrow>
   CayleyQuad_call_kwargs (PDict kvs) = Inl TypeError"
  by (cases "map_of kvs ''subject''"; cases "map_of kvs ''predicate''";
      cases "map_of kvs ''object''") simp_all

lemma call_kwargs_not_dict:
  "\<not> type_is_dict v \<Longrightarrow> CayleyQuad_call_kwargs v = Inl TypeError"
  by (cases v) simp_all

lemma from_dict_TypeError:
  "CayleyQuad_call_kwargs v = Inl TypeError \<Longrightarrow> CayleyQuad_from_dict v = Inl NotAValidQuadError"
  by (simp add: CayleyQuad_from_dict_def)

text \<open>
  Claim C9. \<open>from_dict\<close> raises \<open>NotAValidQuadError\<close> on every record that lacks
  \<open>subject\<close>, \<open>predicate\<close> or \<open>object\<close> or has a key that is not a parameter of the
  constructor. \<open>from_json\<close> raises \<open>NotAValidQuadError\<close> on every text that the decoder
  rejects or decodes to something that is not a record; so it does on \<^verbatim>\<open>{not json\<close>,
  for every decoder that rejects that text.
\<close>

theorem malformed_input_NotAValidQuadError:
  "(map_of kvs ''subject'' = None \<or> map_of kvs ''predicate'' = None
      \<or> map_of kvs ''object'' = None \<or> (\<exists>k \<in> set (map fst kvs). k \<notin> set init_parameters)
     \<longrightarrow> CayleyQuad_from_dict (PDict kvs) = Inl NotAValidQuadError)
   \<and> (ld t = None \<or> (\<exists>v. ld t = Some v \<and> \<not> type_is_dict v)
     \<longrightarrow> CayleyQuad_from_json ld (PStr t) = Inl NotAValidQuadError)
   \<and> (ld ''{not json'' = None
     \<longrightarrow> CayleyQuad_from_json ld (PStr ''{not json'') = Inl NotAValidQuadError)"
proof (intro conjI impI)
  assume "map_of kvs ''subject'' = None \<or> map_of kvs ''predicate'' = None
      \<or> map_of kvs ''object'' = None \<or> (\<exists>k \<in> set (map fst kvs). k \<notin> set init_parameters)"
  then have "CayleyQuad_call_kwargs (PDict kvs) = Inl TypeError"
    using call_kwargs_unknown_key [of kvs] call_kwargs_missing_key [of kvs] by blast
  then show "CayleyQuad_from_dict (PDict kvs) = Inl NotAValidQuadError"
    by (rule from_dict_TypeError)
next
  assume a: "ld t = None \<or> (\<exists>v. ld t = Some v \<and> \<not> type_is_dict v)"
  show "CayleyQuad_from_json ld (PStr t) = Inl NotAValidQuadError"
  proof (cases "ld t")
    case None
    then show ?thesis by (simp add: CayleyQuad_from_json_def)
  next
    case (Some v)
    with a have "\<not> type_is_dict v" by auto
    then have "CayleyQuad_from_dict v = Inl NotAValidQuadError"
      by (simp add: call_kwargs_not_dict from_dict_TypeError)
    with Some show ?thesis by (simp add: CayleyQuad_from_json_def)
  qed
next
  assume "ld ''{not json'' = None"
  then show "CayleyQuad_from_json ld (PStr ''{not json'') = Inl NotAValidQuadError"
    by (simp add: CayleyQuad_from_json_def)
qed

text \<open>
  At a record without \<open>object\<close>, and at a decoder that accepts the text \<^verbatim>\<open>[1]\<close>
  only, which is not a record.
\<close>

theorem malformed_input_NotAValidQuadError_witness:
  "map_of [(''subject'', PStr ''a''), (''predicate'', PStr ''b'')] ''object'' = None
   \<and> CayleyQuad_from_dict (PDict [(''subject'', PStr ''a''), (''predicate'', PStr ''b'')])
       = Inl NotAValidQuadError
   \<and> map_of [(''[1]'', PList [PInt 1])] ''[1]'' = Some (PList [PInt 1])
   \<and> \<not> type_is_dict (PList [PInt 1])
   \<and> CayleyQuad_from_json (map_of [(''[1]'', PList [PInt 1])]) (PStr ''[1]'')
       = Inl NotAValidQuadError
   \<and> map_of [(''[1]'', PList [PInt 1])] ''{not json'' = None
   \<and> CayleyQuad_from_json (map_of [(''[1]'', PList [PInt 1])]) (PStr ''{not json'')
       = Inl NotAValidQuadError"
  using malformed_input_NotAValidQuadError
    [of "[(''subject'', PStr ''a''), (''predicate'', PStr ''b'')]"
        "map_of [(''[1]'', PList [PInt 1])]" "''[1]''"]
  by simp

subsection \<open>The root of a vertex chain\<close>

text \<open>
  The loop of \<open>V\<close> on texts: the pieces it appends concatenate to the quoted ids joined
  by commas.
\<close>

lemma V_loop_texts:
  "\<exists>pieces. V_loop (index + length ids) index (map PStr ids) builder = Inr (builder @ pieces)
     \<and> concat pieces = py_join '','' (map quoted ids)"
proof (induction ids arbitrary: index builder)
  case Nil
  show ?case by simp
next
  case (Cons x xs)
  show ?case
  proof (cases xs)
    case Nil
    then show ?thesis by (simp add: quoted_def)
  next
    case (Cons y ys)
    from Cons.IH [of "Suc index" "builder @ [quote @ x @ quote @ '','']"]
    obtain pieces where
      run: "V_loop (Suc index + length xs) (Suc index) (map PStr xs)
              (builder @ [quote @ x @ quote @ '','']) =
            Inr ((builder @ [quote @ x @ quote @ '','']) @ pieces)"
      and cat: "concat pieces = py_join '','' (map quoted xs)"
      by blast
    have step: "V_loop (index + length (x # xs)) index (map PStr (x # xs)) builder =
        Inr (builder @ ((quote @ x @ quote @ '','') # pieces))"
      using run Cons by simp
    have "concat ((quote @ x @ quote @ '','') # pieces) = py_join '','' (map quoted (x # xs))"
      using cat Cons by (simp add: quoted_def)
    with step show ?thesis by blast
  qed
qed

lemma GraphObject_V_texts:
  "GraphObject_V (map PStr ids) = Inr (Path Vertex_class [QueryDefinition (spec_V_root ids) []])"
proof -
  from V_loop_texts [of 0 ids "[]"] obtain pieces where
    "V_loop (length ids) 0 (map PStr ids) [] = Inr pieces"
    and "concat pieces = py_join '','' (map quoted ids)"
    by auto
  then show ?thesis by (simp add: GraphObject_V_def Path_init_def spec_V_root_def)
qed

text \<open>
  Claim C7. For every list of ids, \<open>V\<close> returns a vertex chain of one step, the root,
  which serializes as \<open>g.V(\<close>, the ids each between single quotes and joined by commas,
  \<open>)\<close>: \<open>g.V()\<close> for no id. \<^verbatim>\<open>V().All().build()\<close> is \<^verbatim>\<open>g.V().All()\<close> and
  \<^verbatim>\<open>V("alice","bob").build()\<close> is \<^verbatim>\<open>g.V('alice','bob')\<close>.
\<close>

theorem GraphObject_V_root:
  "GraphObject_V (map PStr ids) = Inr (Path Vertex_class [QueryDefinition (spec_V_root ids) []])
   \<and> Path_build rt (Path Vertex_class [QueryDefinition (spec_V_root ids) []])
       = Inr (spec_V_root ids)
   \<and> spec_V_root [] = ''g.V()''
   \<and> spec_V_root (i # is) = ''g.V('' @ py_join '','' (map quoted (i # is)) @ '')''
   \<and> GraphObject_V [] = Inr (Path Vertex_class [QueryDefinition ''g.V()'' []])
   \<and> Path_build rt (snd (Vertex_All (Path Vertex_class [QueryDefinition ''g.V()'' []])))
       = Inr ''g.V().All()''
   \<and> GraphObject_V [PStr ''alice'', PStr ''bob'']
       = Inr (Path Vertex_class [QueryDefinition ''g.V('alice','bob')'' []])
   \<and> Path_build rt (Path Vertex_class [QueryDefinition ''g.V('alice','bob')'' []])
       = Inr ''g.V('alice','bob')''"
proof -
  have root: "GraphObject_V (map PStr ids) =
      Inr (Path Vertex_class [QueryDefinition (spec_V_root ids) []])"
    by (rule GraphObject_V_texts)
  have ser: "Path_build rt (Path Vertex_class [QueryDefinition tok []]) = Inr tok" for tok
    by (simp add: Path_build_def)
  have none: "GraphObject_V [] = Inr (Path Vertex_class [QueryDefinition ''g.V()'' []])"
    using GraphObject_V_texts [of "[]"] by (simp add: spec_V_root_def)
  have two: "GraphObject_V [PStr ''alice'', PStr ''bob''] =
      Inr (Path Vertex_class [QueryDefinition ''g.V('alice','bob')'' []])"
    using GraphObject_V_texts [of "[''alice'', ''bob'']"]
    by (simp add: spec_V_root_def quoted_def quote_def)
  have all: "Path_build rt (snd (Vertex_All (Path Vertex_class [QueryDefinition ''g.V()'' []])))
      = Inr ''g.V().All()''"
    by (simp add: Path_build_def Vertex_All_def)
  from root ser none two all show ?thesis by (simp add: spec_V_root_def)
qed

subsection \<open>Vertex\<close>

text \<open>
  Claim C10. With one or more ids, \<open>Vertex\<close> calls \<open>V\<close> with the tuple of ids as its
  single argument, and the call raises \<open>TypeError\<close> where the tuple meets the format code
  \<open>s\<close>; so it differs from \<open>V\<close> on the ids, which returns the chain rooted at the
  quoted ids when they are texts. Without ids \<open>Vertex\<close> is \<open>V()\<close>.
\<close>

theorem GraphObject_Vertex_tuple:
  "GraphObject_Vertex (node_id # node_ids) = GraphObject_V [PTuple (node_id # node_ids)]
   \<and> format_s (PTuple (node_id # node_ids)) = Inl TypeError
   \<and> GraphObject_Vertex (node_id # node_ids) = Inl TypeError
   \<and> GraphObject_V (map PStr (i # is))
       = Inr (Path Vertex_class [QueryDefinition (spec_V_root (i # is)) []])
   \<and> GraphObject_Vertex (map PStr (i # is)) \<noteq> GraphObject_V (map PStr (i # is))
   \<and> GraphObject_Vertex [] = GraphObject_V []
   \<and> GraphObject_Vertex [] = Inr (Path Vertex_class [QueryDefinition ''g.V()'' []])"
proof -
  have raise: "GraphObject_Vertex (v # vs) = Inl TypeError" for v vs
    by (simp add: GraphObject_Vertex_def GraphObject_V_def)
  have texts: "GraphObject_V (map PStr (i # is))
      = Inr (Path Vertex_class [QueryDefinition (spec_V_root (i # is)) []])"
    by (rule GraphObject_V_texts)
  have "GraphObject_Vertex (map PStr (i # is)) = Inl TypeError"
    using raise [of "PStr i" "map PStr is"] by simp
  with texts have differ: "GraphObject_Vertex (map PStr (i # is)) \<noteq> GraphObject_V (map PStr (i # is))"
    by simp
  have none: "GraphObject_Vertex [] = Inr (Path Vertex_class [QueryDefinition ''g.V()'' []])"
    using GraphObject_V_texts [of "[]"] by (simp add: GraphObject_Vertex_def spec_V_root_def)
  have same: "GraphObject_Vertex [] = GraphObject_V []"
    by (simp add: GraphObject_Vertex_def)
  have call: "GraphObject_Vertex (node_id # node_ids) = GraphObject_V [PTuple (node_id # node_ids)]"
    by (simp add: GraphObject_Vertex_def)
  from raise [of node_id node_ids] texts differ none same call show ?thesis by simp
qed

subsection \<open>Rejected chain arguments\<close>

text \<open>
  Claim C3. An argument that is neither a \<open>_Vertex\<close> chain nor a text makes \<open>Intersect\<close>
  and \<open>Union\<close> raise the invalid-parameter exception, and an argument that is neither a
  \<open>_Morphism\<close> chain nor a text makes \<open>Follow\<close> and \<open>FollowR\<close> raise it; the chain is
  then exactly what it was: the same declarations and the same serialized form.
\<close>

theorem rejected_query_leaves_chain:
  "(\<not> isinstance_path x Vertex_class \<and> \<not> type_is_str x \<longrightarrow>
      Path_Intersect x c = (Inl (Exception ''Invalid parameter in intersect query''), c)
    \<and> Path_Union x c = (Inl (Exception ''Invalid parameter in union query''), c)
    \<and> queryDeclarations (snd (Path_Intersect x c)) = queryDeclarations c
    \<and> queryDeclarations (snd (Path_Union x c)) = queryDeclarations c
    \<and> Path_build rt (snd (Path_Intersect x c)) = Path_build rt c
    \<and> Path_build rt (snd (Path_Union x c)) = Path_build rt c)
   \<and> (\<not> isinstance_path x Morphism_class \<and> \<not> type_is_str x \<longrightarrow>
      Path_Follow x c = (Inl (Exception ''Invalid parameter in follow query''), c)
    \<and> Path_FollowR x c = (Inl (Exception ''Invalid parameter in followr query''), c)
    \<and> queryDeclarations (snd (Path_Follow x c)) = queryDeclarations c
    \<and> queryDeclarations (snd (Path_FollowR x c)) = queryDeclarations c
    \<and> Path_build rt (snd (Path_Follow x c)) = Path_build rt c
    \<and> Path_build rt (snd (Path_FollowR x c)) = Path_build rt c)"
  by (simp add: Path_Intersect_def Path_Union_def Path_Follow_def Path_FollowR_def)

text \<open>
  At the chain \<open>g.V()\<close>: \<open>Intersect\<close> of a morphism chain, \<open>Follow\<close> of a vertex chain,
  and \<open>Union\<close> and \<open>FollowR\<close> of an integer.
\<close>

theorem rejected_query_leaves_chain_witness:
  "\<not> isinstance_path (PPath GraphObject_M) Vertex_class
   \<and> \<not> type_is_str (PPath GraphObject_M)
   \<and> Path_Intersect (PPath GraphObject_M) (Path Vertex_class [QueryDefinition ''g.V()'' []])
       = (Inl (Exception ''Invalid parameter in intersect query''),
          Path Vertex_class [QueryDefinition ''g.V()'' []])
   \<and> Path_build blank_str
        (snd (Path_Intersect (PPath GraphObject_M)
               (Path Vertex_class [QueryDefinition ''g.V()'' []])))
       = Inr ''g.V()''
   \<and> \<not> isinstance_path (PPath (Path Vertex_class [QueryDefinition ''g.V()'' []])) Morphism_class
   \<and> \<not> type_is_str (PPath (Path Vertex_class [QueryDefinition ''g.V()'' []]))
   \<and> Path_Follow (PPath (Path Vertex_class [QueryDefinition ''g.V()'' []]))
        (Path Vertex_class [QueryDefinition ''g.V()'' []])
       = (Inl (Exception ''Invalid parameter in follow query''),
          Path Vertex_class [QueryDefinition ''g.V()'' []])
   \<and> Path_Union (PInt 5) (Path Vertex_class [QueryDefinition ''g.V()'' []])
       = (Inl (Exception ''Invalid parameter in union query''),
          Path Vertex_class [QueryDefinition ''g.V()'' []])
   \<and> Path_FollowR (PInt 5) (Path Vertex_class [QueryDefinition ''g.V()'' []])
       = (Inl (Exception ''Invalid parameter in followr query''),
          Path Vertex_class [QueryDefinition ''g.V()'' []])"
proof -
  let ?c = "Path Vertex_class [QueryDefinition ''g.V()'' []]"
  have m: "\<not> isinstance_path (PPath GraphObject_M) Vertex_class
      \<and> \<not> type_is_str (PPath GraphObject_M)"
    by (simp add: GraphObject_M_def Path_init_def)
  have v: "\<not> isinstance_path (PPath ?c) Morphism_class \<and> \<not> type_is_str (PPath ?c)"
    by simp
  have n: "\<not> isinstance_path (PInt 5) Vertex_class \<and> \<not> isinstance_path (PInt 5) Morphism_class
      \<and> \<not> type_is_str (PInt 5)"
    by simp
  have ser: "Path_build blank_str ?c = Inr ''g.V()''"
    by (simp add: Path_build_def)
  from m v n ser
    rejected_query_leaves_chain [of "PPath GraphObject_M" ?c blank_str]
    rejected_query_leaves_chain [of "PPath ?c" ?c blank_str]
    rejected_query_leaves_chain [of "PInt 5" ?c blank_str]
  show ?thesis by simp
qed

subsection \<open>Is\<close>

lemma str_join_texts: "str_join sep (map PStr ids) = Inr (py_join sep ids)"
proof -
  have "map the_str (map PStr ids) = ids" by (induction ids) simp_all
  then show ?thesis by (simp add: str_join_def)
qed

lemma Is_step_str:
  "QueryDefinition_str rt (QueryDefinition ''Is('%s')'' [PStr s]) = Inr (''Is('' @ quoted s @ '')'')"
  by (simp add: quoted_def quote_def)

text \<open>Joining with quote, comma, space, quote inside one pair of quotes quotes each id.\<close>

lemma quoted_join:
  "quoted (py_join (quote @ '', '' @ quote) (i # is)) = py_join '', '' (map quoted (i # is))"
proof (induction "is" arbitrary: i)
  case Nil
  show ?case by simp
next
  case (Cons j js)
  have "quoted (py_join (quote @ '', '' @ quote) (i # j # js))
        = quoted i @ '', '' @ quoted (py_join (quote @ '', '' @ quote) (j # js))"
    by (simp add: quoted_def)
  with Cons.IH [of j] show ?case by simp
qed

text \<open>
  Claim C8 as it is stated, at the ids \<open>a\<close> and \<open>b\<close>: the step that \<open>Is\<close> appends
  serializes as \<^verbatim>\<open>Is('a', 'b')\<close>, each id between its own quotes, and not as the single
  quoted run \<^verbatim>\<open>Is('a, b')\<close>.
\<close>

theorem Is_not_one_quoted_run:
  "Path_build blank_str
     (snd (Path_Is [PStr ''a'', PStr ''b''] (Path Vertex_class [QueryDefinition ''g.V()'' []])))
     = Inr ''g.V().Is('a', 'b')''
   \<and> spec_Is_one_run [''a'', ''b''] = ''Is('a, b')''
   \<and> Path_build blank_str
     (snd (Path_Is [PStr ''a'', PStr ''b''] (Path Vertex_class [QueryDefinition ''g.V()'' []])))
     \<noteq> Inr (''g.V().'' @ spec_Is_one_run [''a'', ''b''])"
  by (simp add: Path_build_def Path_Is_def str_join_def spec_Is_one_run_def quoted_def quote_def)

text \<open>
  Claim C8, amended. For every sequence of ids, \<open>Is\<close> appends exactly one step, with the
  token \<^verbatim>\<open>Is('%s')\<close> and one parameter: the ids joined by quote, comma, space, quote. For
  one or more ids the step serializes as \<open>Is(\<close>, the ids each between its own single
  quotes and separated by comma and space, \<open>)\<close>; for no id it serializes as \<open>Is\<close> of the
  empty quoted text.
\<close>

theorem Path_Is_quotes_each_id:
  "Path_Is (map PStr ids) c =
      (Inr (), GremlinQuery_put ''Is('%s')'' [PStr (py_join (quote @ '', '' @ quote) ids)] c)
   \<and> queryDeclarations (snd (Path_Is (map PStr ids) c)) =
      queryDeclarations c
        @ [QueryDefinition ''Is('%s')'' [PStr (py_join (quote @ '', '' @ quote) ids)]]
   \<and> QueryDefinition_str rt
        (QueryDefinition ''Is('%s')'' [PStr (py_join (quote @ '', '' @ quote) (i # is))])
      = Inr (Is_each_quoted (i # is))
   \<and> Is_each_quoted (i # is) = ''Is('' @ py_join '', '' (map quoted (i # is)) @ '')''
   \<and> QueryDefinition_str rt
        (QueryDefinition ''Is('%s')'' [PStr (py_join (quote @ '', '' @ quote) [])])
      = Inr (''Is('' @ quote @ quote @ '')'')"
proof -
  have call: "Path_Is (map PStr ids) c =
      (Inr (), GremlinQuery_put ''Is('%s')'' [PStr (py_join (quote @ '', '' @ quote) ids)] c)"
    by (simp add: Path_Is_def str_join_texts)
  have decls: "queryDeclarations (GremlinQuery_put tok ps c) =
      queryDeclarations c @ [QueryDefinition tok ps]" for tok ps
    by (cases c) simp
  have some: "QueryDefinition_str rt
        (QueryDefinition ''Is('%s')'' [PStr (py_join (quote @ '', '' @ quote) (i # is))])
      = Inr (Is_each_quoted (i # is))"
    unfolding Is_step_str quoted_join Is_each_quoted_def by (rule refl)
  have none: "QueryDefinition_str rt
        (QueryDefinition ''Is('%s')'' [PStr (py_join (quote @ '', '' @ quote) [])])
      = Inr (''Is('' @ quote @ quote @ '')'')"
    unfolding Is_step_str by (simp add: quoted_def)
  from call decls some none show ?thesis by (simp add: Is_each_quoted_def)
qed

end
